theory Spec2Isabelle
  imports Complex_Main "HOL-Library.Word"
begin

text \<open>
  The transcription feature of the application: the chunk duration and the split tag
  (\<^verbatim>\<open>calculateChunkSeconds\<close>, \<^verbatim>\<open>formatTimestamp\<close>, \<^verbatim>\<open>formatSplitTag\<close>), the orchestration
  (\<^verbatim>\<open>transcribeRecording\<close>, \<^verbatim>\<open>transcribeBlob\<close>, \<^verbatim>\<open>transcribeSplitAudio\<close>,
  \<^verbatim>\<open>transcribeWithProvider\<close>) over injected services, and the store behind the split-audio
  dialog (\<^verbatim>\<open>createSplitAudioDialog\<close>). A function that calls services returns its result
  together with the list of what it did.
\<close>

section \<open>JavaScript values\<close>

subsection \<open>Numbers\<close>

text \<open>
  A JavaScript \<^verbatim>\<open>number\<close> is an IEEE 754 double. The model keeps its five kinds of
  value apart: a finite value (\<open>Fin 0\<close> is \<open>+0\<close>), negative zero, the two infinities and
  NaN. Finite values are exact: the payload is a rational for a general number and an
  integer for a number that is known to be integral (a result of \<^verbatim>\<open>Math.floor\<close>,
  \<^verbatim>\<open>Math.round\<close>, \<^verbatim>\<open>%\<close> on integral operands, a size or an array index).
  Rounding of finite results to 53 bits and overflow to infinity are not modelled, so the
  model is the program on inputs whose intermediate results are exactly representable.
  Division by zero, the sign of zero, the infinities and NaN follow ECMAScript.
\<close>

datatype 'a number = Fin 'a | NegZero | PosInf | NegInf | NaN

fun is_nan :: "'a number \<Rightarrow> bool" where
  "is_nan NaN = True"
| "is_nan _ = False"

fun is_inf :: "'a number \<Rightarrow> bool" where
  "is_inf PosInf = True"
| "is_inf NegInf = True"
| "is_inf _ = False"

fun is_zero :: "'a::zero number \<Rightarrow> bool" where
  "is_zero (Fin a) = (a = 0)"
| "is_zero NegZero = True"
| "is_zero _ = False"

text \<open>The sign bit: set for negative values, for \<open>-0\<close> and for \<open>-Infinity\<close>.\<close>

fun sign_bit :: "'a::{zero,ord} number \<Rightarrow> bool" where
  "sign_bit (Fin a) = (a < 0)"
| "sign_bit NegZero = True"
| "sign_bit NegInf = True"
| "sign_bit _ = False"

text \<open>The payload of a finite number; both zeros have the payload 0.\<close>

fun val :: "'a::zero number \<Rightarrow> 'a" where
  "val (Fin a) = a"
| "val _ = 0"


definition signed_zero :: "bool \<Rightarrow> 'a::zero number" where
  "signed_zero s = (if s then NegZero else Fin 0)"

definition signed_inf :: "bool \<Rightarrow> 'a number" where
  "signed_inf s = (if s then NegInf else PosInf)"

text \<open>An integral number read as a general one (no operation of the source).\<close>

fun of_integral :: "int number \<Rightarrow> rat number" where
  "of_integral (Fin i) = Fin (of_int i)"
| "of_integral NegZero = NegZero"
| "of_integral PosInf = PosInf"
| "of_integral NegInf = NegInf"
| "of_integral NaN = NaN"

text \<open>\<^verbatim>\<open>x - y\<close>\<close>

definition js_sub :: "'a::linordered_idom number \<Rightarrow> 'a number \<Rightarrow> 'a number" where
  "js_sub x y =
     (if is_nan x \<or> is_nan y then NaN
      else if is_inf x then (if x = y then NaN else x)
      else if is_inf y then (if y = PosInf then NegInf else PosInf)
      else if x = NegZero \<and> y = Fin 0 then NegZero
      else Fin (val x - val y))"

text \<open>\<^verbatim>\<open>x * y\<close>\<close>

definition js_mul :: "'a::linordered_idom number \<Rightarrow> 'a number \<Rightarrow> 'a number" where
  "js_mul x y =
     (if is_nan x \<or> is_nan y then NaN
      else if (is_inf x \<and> is_zero y) \<or> (is_zero x \<and> is_inf y) then NaN
      else if is_inf x \<or> is_inf y then signed_inf (sign_bit x \<noteq> sign_bit y)
      else if is_zero x \<or> is_zero y then signed_zero (sign_bit x \<noteq> sign_bit y)
      else Fin (val x * val y))"

text \<open>\<^verbatim>\<open>x / y\<close>: a division by zero gives an infinity, or NaN for \<open>0 / 0\<close>.\<close>

definition js_div :: "rat number \<Rightarrow> rat number \<Rightarrow> rat number" where
  "js_div x y =
     (if is_nan x \<or> is_nan y then NaN
      else if (is_inf x \<and> is_inf y) \<or> (is_zero x \<and> is_zero y) then NaN
      else if is_inf x \<or> is_zero y then signed_inf (sign_bit x \<noteq> sign_bit y)
      else if is_zero x \<or> is_inf y then signed_zero (sign_bit x \<noteq> sign_bit y)
      else Fin (val x / val y))"

text \<open>\<^verbatim>\<open>x % y\<close> on integral operands: the result has the sign of the dividend.\<close>

definition js_rem :: "int number \<Rightarrow> int number \<Rightarrow> int number" where
  "js_rem x y =
     (if is_nan x \<or> is_nan y then NaN
      else if is_inf x \<or> is_zero y then NaN
      else if is_inf y then x
      else if is_zero x then x
      else (let r = \<bar>val x\<bar> mod \<bar>val y\<bar>
            in if r = 0 then signed_zero (sign_bit x)
               else Fin (if sign_bit x then - r else r)))"

text \<open>\<^verbatim>\<open>x < y\<close>; \<^verbatim>\<open>x > y\<close> is \<open>js_lt y x\<close>. Any comparison with NaN is false.\<close>

definition js_lt :: "'a::linordered_idom number \<Rightarrow> 'a number \<Rightarrow> bool" where
  "js_lt x y =
     (if is_nan x \<or> is_nan y then False
      else if x = NegInf then y \<noteq> NegInf
      else if y = PosInf then x \<noteq> PosInf
      else if x = PosInf \<or> y = NegInf then False
      else val x < val y)"

text \<open>\<^verbatim>\<open>Math.max(x, y)\<close>: NaN if either is NaN, and \<open>+0\<close> counts as larger than \<open>-0\<close>.\<close>

definition js_max :: "'a::linordered_idom number \<Rightarrow> 'a number \<Rightarrow> 'a number" where
  "js_max x y =
     (if is_nan x \<or> is_nan y then NaN
      else if js_lt x y then y
      else if js_lt y x then x
      else if x = NegZero then y
      else x)"

text \<open>\<^verbatim>\<open>Math.floor(x)\<close>\<close>

fun js_floor :: "rat number \<Rightarrow> int number" where
  "js_floor (Fin r) = Fin \<lfloor>r\<rfloor>"
| "js_floor NegZero = NegZero"
| "js_floor PosInf = PosInf"
| "js_floor NegInf = NegInf"
| "js_floor NaN = NaN"

text \<open>
  \<^verbatim>\<open>Math.round(x)\<close>: the nearest integer, a tie going up; a negative \<open>x\<close> that rounds to
  zero gives \<open>-0\<close>.
\<close>

fun js_round :: "rat number \<Rightarrow> int number" where
  "js_round (Fin r) = (if r < 0 \<and> \<lfloor>r + 1 / 2\<rfloor> = 0 then NegZero else Fin \<lfloor>r + 1 / 2\<rfloor>)"
| "js_round NegZero = NegZero"
| "js_round PosInf = PosInf"
| "js_round NegInf = NegInf"
| "js_round NaN = NaN"

subsection \<open>Strings\<close>

text \<open>
  A JavaScript string is a sequence of UTF-16 code units. \<open>ascii\<close> writes the code units
  of an ASCII literal.
\<close>

type_synonym jsstring = "16 word list"

definition ascii :: "string \<Rightarrow> jsstring" where
  "ascii s = map of_char s"

text \<open>
  \<^verbatim>\<open>String(x)\<close> of an integral number, as the template literals and \<^verbatim>\<open>String\<close> of the
  source apply it: the decimal digits, exact for magnitudes below \<open>2 ^ 53\<close>.
\<close>

fun decimal :: "nat \<Rightarrow> jsstring" where
  "decimal n = (if n < 10 then [of_nat (48 + n)] else decimal (n div 10) @ [of_nat (48 + n mod 10)])"

declare decimal.simps [simp del]

fun js_String :: "int number \<Rightarrow> jsstring" where
  "js_String (Fin i) = (if i < 0 then ascii ''-'' @ decimal (nat (- i)) else decimal (nat i))"
| "js_String NegZero = ascii ''0''"
| "js_String PosInf = ascii ''Infinity''"
| "js_String NegInf = ascii ''-Infinity''"
| "js_String NaN = ascii ''NaN''"

text \<open>\<^verbatim>\<open>s.padStart(targetLength, padString)\<close>\<close>

definition padStart :: "jsstring \<Rightarrow> nat \<Rightarrow> jsstring \<Rightarrow> jsstring" where
  "padStart s targetLength padString =
     (if targetLength \<le> length s \<or> padString = [] then s
      else take (targetLength - length s)
             (concat (replicate (targetLength - length s) padString)) @ s)"

section \<open>The chunk duration\<close>

record SplitAudioDialogOptions =
  maxMb :: "rat number"
  bitrateKbps :: "rat number"
  minChunkSec :: "rat number"
  safetyMb :: "rat number"
  addSplitTags :: bool

definition MAX_TRANSCRIPTION_FILE_MB :: nat where
  "MAX_TRANSCRIPTION_FILE_MB = 25"

definition MB_BYTES :: nat where
  "MB_BYTES = 1024 * 1024"

definition calculateChunkSeconds :: "SplitAudioDialogOptions \<Rightarrow> rat number" where
  "calculateChunkSeconds opts =
     (let targetBytes = js_mul (js_sub (maxMb opts) (safetyMb opts)) (Fin (of_nat MB_BYTES));
          bytesPerSecond = js_div (js_mul (bitrateKbps opts) (Fin 1000)) (Fin 8)
      in js_max (minChunkSec opts) (of_integral (js_floor (js_div targetBytes bytesPerSecond))))"




section \<open>The split tag\<close>

definition formatTimestamp :: "rat number \<Rightarrow> jsstring" where
  "formatTimestamp totalSeconds =
     (let clampedSeconds = js_max (Fin 0) (js_floor totalSeconds);
          hours = js_floor (js_div (of_integral clampedSeconds) (Fin 3600));
          minutes = js_floor (js_div (of_integral (js_rem clampedSeconds (Fin 3600))) (Fin 60));
          seconds = js_rem clampedSeconds (Fin 60);
          hourPrefix = (if js_lt (Fin 0) hours
                        then padStart (js_String hours) 2 (ascii ''0'') @ ascii '':''
                        else [])
      in hourPrefix @ padStart (js_String minutes) 2 (ascii ''0'') @ ascii '':''
           @ padStart (js_String seconds) 2 (ascii ''0''))"

definition formatSplitTag :: "int number \<Rightarrow> rat number \<Rightarrow> rat number \<Rightarrow> jsstring" where
  "formatSplitTag index startSeconds endSeconds =
     ascii ''[Chunk '' @ js_String index @ ascii '' '' @ [0x2022] @ ascii '' ''
       @ formatTimestamp startSeconds @ ascii '' '' @ [0x2013] @ ascii '' ''
       @ formatTimestamp endSeconds @ ascii '']''"

subsection \<open>Trimming and joining\<close>

text \<open>
  \<^verbatim>\<open>s.trim()\<close>: the white space and line terminators of ECMAScript are removed from both
  ends. All of them are single code units.
\<close>

definition is_whitespace :: "16 word \<Rightarrow> bool" where
  "is_whitespace c =
     (c \<in> {0x09, 0x0A, 0x0B, 0x0C, 0x0D, 0x20, 0xA0, 0x1680, 0x2028, 0x2029, 0x202F, 0x205F,
            0x3000, 0xFEFF}
      \<or> (0x2000 \<le> c \<and> c \<le> 0x200A))"

definition trim :: "jsstring \<Rightarrow> jsstring" where
  "trim s = rev (dropWhile is_whitespace (rev (dropWhile is_whitespace s)))"

text \<open>\<^verbatim>\<open>xs.join(sep)\<close> on an array of strings.\<close>

fun js_join :: "jsstring \<Rightarrow> jsstring list \<Rightarrow> jsstring" where
  "js_join sep [] = []"
| "js_join sep [x] = x"
| "js_join sep (x # y # ys) = x @ sep @ js_join sep (y # ys)"

section \<open>Services and their results\<close>

text \<open>
  A \<^verbatim>\<open>Result<T, E>\<close> is a sum: \<open>Inl\<close> is \<^verbatim>\<open>Err\<close>, \<open>Inr\<close> is \<^verbatim>\<open>Ok\<close>.
\<close>

datatype ServiceError = ServiceError (message: jsstring)

record WhisperingError =
  title :: jsstring
  description :: "jsstring option"
  serviceError :: "ServiceError option"

text \<open>
  A blob has a size in bytes; \<open>blob_data\<close> stands for its content, so that two blobs of
  the same size can differ.
\<close>

record Blob =
  blob_size :: nat
  blob_data :: nat

datatype TranscriptionStatus = UNPROCESSED | TRANSCRIBING | DONE | FAILED

record Recording =
  recording_id :: jsstring
  transcribedText :: jsstring
  transcriptionStatus :: TranscriptionStatus

text \<open>
  The value of the setting \<^verbatim>\<open>transcription.selectedTranscriptionService\<close>; \<open>OtherService\<close> is
  any value that \<^verbatim>\<open>transcribeWithProvider\<close> has no case for.
\<close>

datatype TranscriptionService =
  OpenAI | Groq | speaches | ElevenLabs | Deepgram | Mistral | whispercpp | parakeet | moonshine
| OtherService

text \<open>The settings that \<^verbatim>\<open>transcribeBlob\<close> reads, by the last part of their key.\<close>

record Settings =
  selectedTranscriptionService :: TranscriptionService
  compressionEnabled :: bool
  compressionOptions :: jsstring
  splitMaxMB :: "rat number"
  splitBitrateKbps :: "rat number"
  splitMinChunkSec :: "rat number"
  splitSafetyMB :: "rat number"
  splitTaggingEnabled :: bool

record SplitAudioDialogRequest =
  request_blob :: Blob
  request_blobSizeMb :: "rat number"
  request_options :: SplitAudioDialogOptions

text \<open>
  The argument of \<^verbatim>\<open>splitAudioBlob\<close>: \<open>maxMb\<close>, \<open>bitrateKbps\<close>, \<open>minChunkSec\<close>, \<open>safetyMb\<close>.
\<close>

type_synonym SplitAudioOptions = "rat number \<times> rat number \<times> rat number \<times> rat number"

text \<open>
  The injected services, as functions of their arguments. Every awaited promise is taken
  to settle. A provider's \<open>transcribe\<close> is applied to the blob only: the options that the
  source passes along are read from settings that no function here changes.
  \<open>splitAudioDialog_open\<close> is the value that the promise returned by
  \<^verbatim>\<open>splitAudioDialog.open\<close> settles with: the confirmed options, or \<open>None\<close> for \<^verbatim>\<open>null\<close>.
  An element of the array returned by \<open>splitAudioBlob\<close> is \<open>None\<close> where the source
  finds it falsy.
\<close>

record Services =
  db_recordings_getAudioBlob :: "jsstring \<Rightarrow> ServiceError + Blob"
  db_recordings_update :: "Recording \<Rightarrow> ServiceError option"
  ffmpeg_compressAudioBlob :: "Blob \<Rightarrow> jsstring \<Rightarrow> ServiceError + Blob"
  ffmpeg_splitAudioBlob :: "Blob \<Rightarrow> SplitAudioOptions \<Rightarrow> ServiceError + Blob option list"
  splitAudioDialog_open :: "SplitAudioDialogRequest \<Rightarrow> SplitAudioDialogOptions option"
  transcriptions_openai :: "Blob \<Rightarrow> WhisperingError + jsstring"
  transcriptions_groq :: "Blob \<Rightarrow> WhisperingError + jsstring"
  transcriptions_speaches :: "Blob \<Rightarrow> WhisperingError + jsstring"
  transcriptions_elevenlabs :: "Blob \<Rightarrow> WhisperingError + jsstring"
  transcriptions_deepgram :: "Blob \<Rightarrow> WhisperingError + jsstring"
  transcriptions_mistral :: "Blob \<Rightarrow> WhisperingError + jsstring"
  transcriptions_whispercpp :: "Blob \<Rightarrow> WhisperingError + jsstring"
  transcriptions_parakeet :: "Blob \<Rightarrow> WhisperingError + jsstring"
  transcriptions_moonshine :: "Blob \<Rightarrow> WhisperingError + jsstring"

text \<open>
  What a run does besides returning: the calls to the services, the analytics events and
  the notifications, in the order in which they happen. The duration logged with
  \<open>transcription_completed\<close> is a difference of clock readings and is left out.
\<close>

datatype AnalyticsEvent =
  transcription_requested TranscriptionService
| compression_failed TranscriptionService jsstring
| compression_completed TranscriptionService nat nat "int number"
| transcription_failed TranscriptionService jsstring "jsstring option"
| transcription_completed TranscriptionService

datatype Event =
  GetAudioBlob jsstring
| DbUpdate Recording
| CompressAudioBlob Blob jsstring
| is_SplitAudioDialogOpen: SplitAudioDialogOpen SplitAudioDialogRequest
| is_SplitAudioBlob: SplitAudioBlob Blob SplitAudioOptions
| is_Transcribe: Transcribe TranscriptionService Blob
| LogEvent AnalyticsEvent
| is_NotifyWarning: NotifyWarning jsstring jsstring "ServiceError option"
| NotifyInfo jsstring jsstring

definition WhisperingErr :: "jsstring \<Rightarrow> jsstring \<Rightarrow> WhisperingError + 'a" where
  "WhisperingErr t d = Inl \<lparr>title = t, description = Some d, serviceError = None\<rparr>"

section \<open>Transcription\<close>

fun transcribeWithProvider ::
  "Services \<Rightarrow> Blob \<Rightarrow> TranscriptionService \<Rightarrow> (WhisperingError + jsstring) \<times> Event list"
where
  "transcribeWithProvider services audioToTranscribe OpenAI =
     (transcriptions_openai services audioToTranscribe, [Transcribe OpenAI audioToTranscribe])"
| "transcribeWithProvider services audioToTranscribe Groq =
     (transcriptions_groq services audioToTranscribe, [Transcribe Groq audioToTranscribe])"
| "transcribeWithProvider services audioToTranscribe speaches =
     (transcriptions_speaches services audioToTranscribe, [Transcribe speaches audioToTranscribe])"
| "transcribeWithProvider services audioToTranscribe ElevenLabs =
     (transcriptions_elevenlabs services audioToTranscribe,
      [Transcribe ElevenLabs audioToTranscribe])"
| "transcribeWithProvider services audioToTranscribe Deepgram =
     (transcriptions_deepgram services audioToTranscribe, [Transcribe Deepgram audioToTranscribe])"
| "transcribeWithProvider services audioToTranscribe Mistral =
     (transcriptions_mistral services audioToTranscribe, [Transcribe Mistral audioToTranscribe])"
| "transcribeWithProvider services audioToTranscribe whispercpp =
     (transcriptions_whispercpp services audioToTranscribe,
      [Transcribe whispercpp audioToTranscribe])"
| "transcribeWithProvider services audioToTranscribe parakeet =
     (transcriptions_parakeet services audioToTranscribe, [Transcribe parakeet audioToTranscribe])"
| "transcribeWithProvider services audioToTranscribe moonshine =
     (transcriptions_moonshine services audioToTranscribe,
      [Transcribe moonshine audioToTranscribe])"
| "transcribeWithProvider services audioToTranscribe OtherService =
     (WhisperingErr ([0x26A0, 0xFE0F] @ ascii '' No transcription service selected'')
        (ascii ''Please select a transcription service in settings.''), [])"

text \<open>
  The loop of \<^verbatim>\<open>transcribeSplitAudio\<close> from \<open>index\<close> on: \<open>chunks\<close> are the elements of
  \<^verbatim>\<open>splitBlobs\<close> from that index, \<open>merged\<close> is the array built so far. The first chunk whose
  transcription fails ends the loop with its error.
\<close>

fun transcribeChunks ::
  "Services \<Rightarrow> SplitAudioDialogOptions \<Rightarrow> TranscriptionService \<Rightarrow> rat number \<Rightarrow> nat \<Rightarrow>
   Blob option list \<Rightarrow> jsstring list \<Rightarrow> (WhisperingError + jsstring list) \<times> Event list"
where
  "transcribeChunks services opts selectedService chunkSeconds index [] merged =
     (Inr merged, [])"
| "transcribeChunks services opts selectedService chunkSeconds index (None # chunks) merged =
     transcribeChunks services opts selectedService chunkSeconds (index + 1) chunks merged"
| "transcribeChunks services opts selectedService chunkSeconds index (Some chunk # chunks) merged =
     (case transcribeWithProvider services chunk selectedService of
        (Inl chunkError, events) \<Rightarrow> (Inl chunkError, events)
      | (Inr text, events) \<Rightarrow>
          (let tagged =
                 (if addSplitTags opts
                  then (let startSeconds = js_mul (Fin (of_nat index)) chunkSeconds;
                            endSeconds = js_mul (Fin (of_nat (index + 1))) chunkSeconds
                        in merged @ [formatSplitTag (Fin (int (index + 1))) startSeconds
                                       endSeconds])
                  else merged);
               (result, later) =
                 transcribeChunks services opts selectedService chunkSeconds (index + 1) chunks
                   (tagged @ [trim text])
           in (result, events @ later)))"

definition transcribeSplitAudio ::
  "Services \<Rightarrow> Blob \<Rightarrow> SplitAudioDialogOptions \<Rightarrow> TranscriptionService \<Rightarrow>
   (WhisperingError + jsstring) \<times> Event list"
where
  "transcribeSplitAudio services blob opts selectedService =
     (let splitOptions = (maxMb opts, bitrateKbps opts, minChunkSec opts, safetyMb opts)
      in case ffmpeg_splitAudioBlob services blob splitOptions of
           Inl splitError \<Rightarrow>
             (Inl \<lparr>title = ascii ''Audio split failed'', description = None,
                   serviceError = Some splitError\<rparr>,
              [SplitAudioBlob blob splitOptions])
         | Inr splitBlobs \<Rightarrow>
             (let chunkSeconds = calculateChunkSeconds opts;
                  (result, events) =
                    transcribeChunks services opts selectedService chunkSeconds 0 splitBlobs []
              in (case result of
                    Inl chunkError \<Rightarrow> Inl chunkError
                  | Inr merged \<Rightarrow> Inr (js_join (ascii [CHR 0x0A, CHR 0x0A]) merged),
                  SplitAudioBlob blob splitOptions # events)))"

text \<open>
  The compression step of \<^verbatim>\<open>transcribeBlob\<close>: the audio to transcribe and what the step
  does.
\<close>

definition compressAudio ::
  "Services \<Rightarrow> Settings \<Rightarrow> Blob \<Rightarrow> Blob \<times> Event list"
where
  "compressAudio services settings blob =
     (let selectedService = selectedTranscriptionService settings
      in if compressionEnabled settings
         then (case ffmpeg_compressAudioBlob services blob (compressionOptions settings) of
                 Inl compressionError \<Rightarrow>
                   (blob,
                    [CompressAudioBlob blob (compressionOptions settings),
                     NotifyWarning (ascii ''Audio compression failed'')
                       (message compressionError
                          @ ascii ''. Using original audio for transcription.'') None,
                     LogEvent (compression_failed selectedService (message compressionError))])
               | Inr compressedBlob \<Rightarrow>
                   (let compressionRatio =
                          js_round (js_mul
                            (js_sub (Fin 1)
                               (js_div (Fin (of_nat (blob_size compressedBlob)))
                                       (Fin (of_nat (blob_size blob)))))
                            (Fin 100))
                    in (compressedBlob,
                        [CompressAudioBlob blob (compressionOptions settings),
                         NotifyInfo (ascii ''Audio compressed'')
                           (ascii ''Reduced file size by '' @ js_String compressionRatio
                              @ ascii ''%''),
                         LogEvent (compression_completed selectedService (blob_size blob)
                           (blob_size compressedBlob) compressionRatio)])))
         else (blob, []))"

text \<open>The request that \<^verbatim>\<open>transcribeBlob\<close> opens the dialog with.\<close>

definition splitAudioDialogRequest :: "Settings \<Rightarrow> Blob \<Rightarrow> SplitAudioDialogRequest" where
  "splitAudioDialogRequest settings blob =
     \<lparr>request_blob = blob,
      request_blobSizeMb = js_div (Fin (of_nat (blob_size blob))) (Fin (of_nat MB_BYTES)),
      request_options =
        \<lparr>maxMb = splitMaxMB settings,
         bitrateKbps = splitBitrateKbps settings,
         minChunkSec = splitMinChunkSec settings,
         safetyMb = splitSafetyMB settings,
         addSplitTags = splitTaggingEnabled settings\<rparr>\<rparr>"

definition transcribeBlob ::
  "Services \<Rightarrow> Settings \<Rightarrow> Blob \<Rightarrow> (WhisperingError + jsstring) \<times> Event list"
where
  "transcribeBlob services settings blob =
     (let selectedService = selectedTranscriptionService settings;
          (audioToTranscribe, compression) = compressAudio services settings blob;
          requiresSplit = (blob_size blob > MAX_TRANSCRIPTION_FILE_MB * MB_BYTES);
          (transcriptionResult, transcription) =
            (if requiresSplit
             then (let request = splitAudioDialogRequest settings blob
                   in case splitAudioDialog_open services request of
                        None \<Rightarrow>
                          (WhisperingErr (ascii ''Split canceled'')
                             (ascii ''Transcription was canceled because the audio file exceeds 25MB.''),
                           [SplitAudioDialogOpen request])
                      | Some splitOptions \<Rightarrow>
                          (let (result, events) =
                                 transcribeSplitAudio services blob splitOptions selectedService
                           in (result, SplitAudioDialogOpen request # events)))
             else transcribeWithProvider services audioToTranscribe selectedService)
      in (transcriptionResult,
          [LogEvent (transcription_requested selectedService)] @ compression @ transcription
            @ [LogEvent (case transcriptionResult of
                           Inl error \<Rightarrow>
                             transcription_failed selectedService (title error) (description error)
                         | Inr text \<Rightarrow> transcription_completed selectedService)]))"

text \<open>
  An update of the recording in the database, as \<^verbatim>\<open>transcribeRecording\<close> does it three
  times: the call, and a warning with the given title and description if it fails.
\<close>

definition updateRecording :: "Services \<Rightarrow> Recording \<Rightarrow> jsstring \<Rightarrow> jsstring \<Rightarrow> Event list" where
  "updateRecording services recording warningTitle warningDescription =
     DbUpdate recording #
     (case db_recordings_update services recording of
        Some error \<Rightarrow> [NotifyWarning warningTitle warningDescription (Some error)]
      | None \<Rightarrow> [])"

definition transcribeRecording ::
  "Services \<Rightarrow> Settings \<Rightarrow> Recording \<Rightarrow> (WhisperingError + jsstring) \<times> Event list"
where
  "transcribeRecording services settings recording =
     (case db_recordings_getAudioBlob services (recording_id recording) of
        Inl getAudioBlobError \<Rightarrow>
          (WhisperingErr ([0x26A0, 0xFE0F] @ ascii '' Failed to fetch audio'')
             (ascii ''Unable to load audio for recording: '' @ message getAudioBlobError),
           [GetAudioBlob (recording_id recording)])
      | Inr audioBlob \<Rightarrow>
          (let setTranscribing =
                 updateRecording services (recording\<lparr>transcriptionStatus := TRANSCRIBING\<rparr>)
                   ([0x26A0, 0xFE0F]
                      @ ascii '' Unable to set recording transcription status to transcribing'')
                   (ascii ''Continuing with the transcription process...'');
               (transcribed, events) = transcribeBlob services settings audioBlob
           in case transcribed of
                Inl transcribeError \<Rightarrow>
                  (Inl transcribeError,
                   GetAudioBlob (recording_id recording) # setTranscribing @ events
                     @ updateRecording services (recording\<lparr>transcriptionStatus := FAILED\<rparr>)
                         ([0x26A0, 0xFE0F]
                            @ ascii '' Unable to update recording after transcription'')
                         (ascii ''Transcription failed but unable to update recording's transcription status in database''))
              | Inr transcribedText' \<Rightarrow>
                  (Inr transcribedText',
                   GetAudioBlob (recording_id recording) # setTranscribing @ events
                     @ updateRecording services
                         (recording\<lparr>transcribedText := transcribedText',
                                    transcriptionStatus := DONE\<rparr>)
                         ([0x26A0, 0xFE0F]
                            @ ascii '' Unable to update recording after transcription'')
                         (ascii ''Transcription completed but unable to update recording's transcribed text and status in database''))))"

section \<open>The split-audio dialog store\<close>

text \<open>
  The store of \<^verbatim>\<open>createSplitAudioDialog\<close>. A promise is named by the order of its creation:
  \<open>promises\<close> lists the state of every promise that \<^verbatim>\<open>open\<close> has returned, and
  \<open>resolvePromise\<close> holds the number of the promise whose resolver is stored, or \<open>None\<close>
  for \<^verbatim>\<open>null\<close>. Resolving a promise that is already settled changes nothing.
\<close>

datatype 'a promise = Pending | Fulfilled 'a

definition resolve :: "nat \<Rightarrow> 'a \<Rightarrow> 'a promise list \<Rightarrow> 'a promise list" where
  "resolve p v ps = (if p < length ps \<and> ps ! p = Pending then ps[p := Fulfilled v] else ps)"

text \<open>A \<^verbatim>\<open>Partial<SplitAudioDialogOptions>\<close>: \<open>None\<close> is an absent key.\<close>

record PartialOptions =
  next_maxMb :: "rat number option"
  next_bitrateKbps :: "rat number option"
  next_minChunkSec :: "rat number option"
  next_safetyMb :: "rat number option"
  next_addSplitTags :: "bool option"

record SplitAudioDialog =
  isOpen :: bool
  blob :: "Blob option"
  blobSizeMb :: "rat number option"
  options :: SplitAudioDialogOptions
  resolvePromise :: "nat option"
  promises :: "SplitAudioDialogOptions option promise list"

definition createSplitAudioDialog :: SplitAudioDialog where
  "createSplitAudioDialog =
     \<lparr>isOpen = False, blob = None, blobSizeMb = None,
      options = \<lparr>maxMb = Fin 25, bitrateKbps = Fin 128, minChunkSec = Fin 10,
                 safetyMb = Fin (1 / 2), addSplitTags = True\<rparr>,
      resolvePromise = None, promises = []\<rparr>"

definition set_isOpen :: "bool \<Rightarrow> SplitAudioDialog \<Rightarrow> SplitAudioDialog" where
  "set_isOpen v s = s\<lparr>isOpen := v\<rparr>"

definition updateOptions :: "PartialOptions \<Rightarrow> SplitAudioDialog \<Rightarrow> SplitAudioDialog" where
  "updateOptions n s =
     s\<lparr>options :=
         \<lparr>maxMb = (case next_maxMb n of Some v \<Rightarrow> v | None \<Rightarrow> maxMb (options s)),
          bitrateKbps =
            (case next_bitrateKbps n of Some v \<Rightarrow> v | None \<Rightarrow> bitrateKbps (options s)),
          minChunkSec =
            (case next_minChunkSec n of Some v \<Rightarrow> v | None \<Rightarrow> minChunkSec (options s)),
          safetyMb = (case next_safetyMb n of Some v \<Rightarrow> v | None \<Rightarrow> safetyMb (options s)),
          addSplitTags =
            (case next_addSplitTags n of Some v \<Rightarrow> v | None \<Rightarrow> addSplitTags (options s))\<rparr>\<rparr>"

text \<open>\<^verbatim>\<open>open\<close> (here \<open>dialog_open\<close>) returns the number of the promise it creates, and the new state.\<close>

definition dialog_open :: "SplitAudioDialogRequest \<Rightarrow> SplitAudioDialog \<Rightarrow> nat \<times> SplitAudioDialog" where
  "dialog_open request s =
     (let s1 = (case resolvePromise s of
                  Some p \<Rightarrow> s\<lparr>promises := resolve p None (promises s)\<rparr>
                | None \<Rightarrow> s);
          s2 = s1\<lparr>blob := Some (request_blob request),
                  blobSizeMb := Some (request_blobSizeMb request),
                  options := request_options request,
                  isOpen := True\<rparr>;
          p = length (promises s2)
      in (p, s2\<lparr>promises := promises s2 @ [Pending], resolvePromise := Some p\<rparr>))"

definition confirm :: "SplitAudioDialog \<Rightarrow> SplitAudioDialog" where
  "confirm s =
     (case resolvePromise s of
        None \<Rightarrow> s
      | Some p \<Rightarrow>
          (let currentOptions = options s
           in s\<lparr>isOpen := False,
                promises := resolve p (Some currentOptions) (promises s),
                resolvePromise := None\<rparr>))"

definition cancel :: "SplitAudioDialog \<Rightarrow> SplitAudioDialog" where
  "cancel s =
     (case resolvePromise s of
        None \<Rightarrow> s
      | Some p \<Rightarrow>
          s\<lparr>isOpen := False, promises := resolve p None (promises s), resolvePromise := None\<rparr>)"

text \<open>The states that calls of the store's methods lead to.\<close>

inductive reachable :: "SplitAudioDialog \<Rightarrow> bool" where
  created: "reachable createSplitAudioDialog"
| after_set_isOpen: "reachable s \<Longrightarrow> reachable (set_isOpen v s)"
| after_updateOptions: "reachable s \<Longrightarrow> reachable (updateOptions n s)"
| after_open: "reachable s \<Longrightarrow> reachable (snd (dialog_open request s))"
| after_confirm: "reachable s \<Longrightarrow> reachable (confirm s)"
| after_cancel: "reachable s \<Longrightarrow> reachable (cancel s)"

definition pending :: "'a promise list \<Rightarrow> nat list" where
  "pending ps = filter (\<lambda>p. ps ! p = Pending) [0..<length ps]"

text \<open>
  The invariant: the only promise that can be pending is the one whose resolver is stored.
\<close>

definition one_request :: "SplitAudioDialog \<Rightarrow> bool" where
  "one_request s = (pending (promises s) = (case resolvePromise s of None \<Rightarrow> [] | Some p \<Rightarrow> [p]))"

section \<open>Shapes named by the specification\<close>

text \<open>
  The shapes the specification names: \<open>mm:ss\<close> with both parts zero-padded to two digits,
  and the shape the program uses from one hour on, \<open>hh:mm:ss\<close>, the hours zero-padded to
  at least two digits.
\<close>

definition two_digits :: "nat \<Rightarrow> jsstring" where
  "two_digits k = [of_nat (48 + k div 10), of_nat (48 + k mod 10)]"

definition mm_ss :: "nat \<Rightarrow> jsstring" where
  "mm_ss t = two_digits (t div 60) @ ascii '':'' @ two_digits (t mod 60)"

definition hh_mm_ss :: "nat \<Rightarrow> jsstring" where
  "hh_mm_ss t =
     (if t div 3600 < 10 then ascii ''0'' @ decimal (t div 3600) else decimal (t div 3600))
       @ ascii '':'' @ mm_ss (t mod 3600)"

definition spec_timestamp :: "nat \<Rightarrow> jsstring" where
  "spec_timestamp t = (if t < 3600 then mm_ss t else hh_mm_ss t)"



section \<open>Notions used to state the claims\<close>

text \<open>The chunks of a split that are present, and the same with their 1-based positions.\<close>

fun present :: "'a option list \<Rightarrow> 'a list" where
  "present [] = []"
| "present (None # cs) = present cs"
| "present (Some c # cs) = c # present cs"

fun numbered :: "nat \<Rightarrow> 'a option list \<Rightarrow> (nat \<times> 'a) list" where
  "numbered n [] = []"
| "numbered n (None # cs) = numbered (Suc n) cs"
| "numbered n (Some c # cs) = (n, c) # numbered (Suc n) cs"

text \<open>The provider calls that transcribing the blobs \<open>bs\<close> one after the other makes.\<close>

definition provider_calls :: "TranscriptionService \<Rightarrow> Blob list \<Rightarrow> Event list" where
  "provider_calls selectedService bs =
     (if selectedService = OtherService then [] else map (Transcribe selectedService) bs)"

text \<open>
  The split tag of chunk \<open>n\<close>, counted from 1: it covers the time from
  \<open>(n - 1) * chunkSeconds\<close> to \<open>n * chunkSeconds\<close>.
\<close>

definition spec_split_tag :: "SplitAudioDialogOptions \<Rightarrow> nat \<Rightarrow> jsstring" where
  "spec_split_tag opts n =
     formatSplitTag (Fin (int n))
       (js_mul (Fin (of_nat (n - 1))) (calculateChunkSeconds opts))
       (js_mul (Fin (of_nat n)) (calculateChunkSeconds opts))"

section \<open>Example services\<close>

text \<open>
  Services for the examples: a recording of 30 MiB that compresses to 1 MiB and splits
  into two chunks, a dialog that is confirmed as it was opened, and providers that
  return \<open>" hello "\<close> for every blob.
\<close>

definition example_services :: Services where
  "example_services =
     \<lparr>db_recordings_getAudioBlob = (\<lambda>i. Inr \<lparr>blob_size = 31457280, blob_data = 0\<rparr>),
      db_recordings_update = (\<lambda>r. None),
      ffmpeg_compressAudioBlob = (\<lambda>b c. Inr \<lparr>blob_size = 1048576, blob_data = 1\<rparr>),
      ffmpeg_splitAudioBlob =
        (\<lambda>b p. Inr [Some \<lparr>blob_size = 25690112, blob_data = 2\<rparr>,
                    Some \<lparr>blob_size = 5767168, blob_data = 3\<rparr>]),
      splitAudioDialog_open = (\<lambda>r. Some (request_options r)),
      transcriptions_openai = (\<lambda>b. Inr (ascii '' hello '')),
      transcriptions_groq = (\<lambda>b. Inr (ascii '' hello '')),
      transcriptions_speaches = (\<lambda>b. Inr (ascii '' hello '')),
      transcriptions_elevenlabs = (\<lambda>b. Inr (ascii '' hello '')),
      transcriptions_deepgram = (\<lambda>b. Inr (ascii '' hello '')),
      transcriptions_mistral = (\<lambda>b. Inr (ascii '' hello '')),
      transcriptions_whispercpp = (\<lambda>b. Inr (ascii '' hello '')),
      transcriptions_parakeet = (\<lambda>b. Inr (ascii '' hello '')),
      transcriptions_moonshine = (\<lambda>b. Inr (ascii '' hello ''))\<rparr>"

definition example_settings :: Settings where
  "example_settings =
     \<lparr>selectedTranscriptionService = OpenAI, compressionEnabled = True,
      compressionOptions = ascii ''-c:a libopus -b:a 32k'',
      splitMaxMB = Fin 25, splitBitrateKbps = Fin 128, splitMinChunkSec = Fin 10,
      splitSafetyMB = Fin (1 / 2), splitTaggingEnabled = True\<rparr>"

definition example_options :: SplitAudioDialogOptions where
  "example_options =
     \<lparr>maxMb = Fin 25, bitrateKbps = Fin 128, minChunkSec = Fin 10, safetyMb = Fin (1 / 2),
      addSplitTags = True\<rparr>"

definition example_blob :: Blob where
  "example_blob = \<lparr>blob_size = 31457280, blob_data = 0\<rparr>"

definition example_error :: WhisperingError where
  "example_error =
     \<lparr>title = ascii ''Rate limit'', description = None, serviceError = None\<rparr>"

definition example_small_blob :: Blob where
  "example_small_blob = \<lparr>blob_size = 2097152, blob_data = 5\<rparr>"

definition example_recording :: Recording where
  "example_recording =
     \<lparr>recording_id = ascii ''rec-1'', transcribedText = [], transcriptionStatus = UNPROCESSED\<rparr>"

section \<open>Arithmetic on finite numbers\<close>








section \<open>Timestamps of finite times\<close>

lemma js_max_zero_Fin: "js_max (Fin 0) (Fin (k::int)) = Fin (max 0 k)"
  by (simp add: js_max_def js_lt_def max_def)

lemma js_floor_div_int:
  assumes "0 \<le> c" and "0 < d"
  shows "js_floor (js_div (of_integral (Fin c)) (Fin (of_int d))) = Fin (c div d)"
  using assms by (simp add: js_div_def signed_zero_def floor_divide_of_int_eq)

lemma js_rem_Fin:
  assumes "0 \<le> c" and "0 < d"
  shows "js_rem (Fin c) (Fin d) = Fin (c mod d)"
  using assms by (auto simp: js_rem_def signed_zero_def Let_def)

lemma js_lt_zero_Fin: "js_lt (Fin 0) (Fin (h::int)) = (0 < h)"
  by (simp add: js_lt_def)

lemma decimal_small: "n < 10 \<Longrightarrow> decimal n = [of_nat (48 + n)]"
  by (simp add: decimal.simps)

lemma decimal_two: "10 \<le> n \<Longrightarrow> n < 100 \<Longrightarrow> decimal n = two_digits n"
proof -
  assume a: "10 \<le> n" "n < 100"
  then have "n div 10 < 10" by simp
  then show ?thesis
    using a by (subst decimal.simps) (simp add: decimal_small two_digits_def)
qed

lemma length_decimal: "10 \<le> n \<Longrightarrow> 2 \<le> length (decimal n)"
  by (subst decimal.simps) (simp add: Suc_le_eq, subst decimal.simps, simp)

lemma padStart_two_digits: "k < 100 \<Longrightarrow> padStart (decimal k) 2 (ascii ''0'') = two_digits k"
proof (cases "k < 10")
  case True
  then show ?thesis
    by (simp add: padStart_def decimal_small ascii_def two_digits_def)
next
  case False
  assume "k < 100"
  with False show ?thesis
    by (simp add: padStart_def decimal_two two_digits_def)
qed

lemma padStart_hours:
  "padStart (decimal h) 2 (ascii ''0'') = (if h < 10 then ascii ''0'' @ decimal h else decimal h)"
proof (cases "h < 10")
  case True
  then show ?thesis
    by (simp add: padStart_def decimal_small ascii_def)
next
  case False
  then have "2 \<le> length (decimal h)" by (simp add: length_decimal)
  with False show ?thesis
    by (simp add: padStart_def)
qed

lemma formatTimestamp_Fin: "formatTimestamp (Fin s) = spec_timestamp (nat \<lfloor>s\<rfloor>)"
proof -
  define c where "c = max 0 \<lfloor>s\<rfloor>"
  define t where "t = nat \<lfloor>s\<rfloor>"
  have c0: "0 \<le> c" and ct: "c = int t"
    by (simp_all add: c_def t_def max_def)
  have clamped: "js_max (Fin 0) (js_floor (Fin s)) = Fin c"
    by (simp add: js_max_zero_Fin c_def)
  have hours: "js_floor (js_div (of_integral (Fin c)) (Fin 3600)) = Fin (int (t div 3600))"
    using js_floor_div_int [OF c0, of 3600] by (simp add: ct zdiv_int)
  have rem1: "js_rem (Fin c) (Fin 3600) = Fin (int (t mod 3600))"
    using js_rem_Fin [OF c0, of 3600] by (simp add: ct zmod_int)
  have minutes: "js_floor (js_div (of_integral (js_rem (Fin c) (Fin 3600))) (Fin 60))
                   = Fin (int (t mod 3600 div 60))"
    using js_floor_div_int [of "int (t mod 3600)" 60] by (simp add: rem1 zdiv_int)
  have seconds: "js_rem (Fin c) (Fin 60) = Fin (int (t mod 60))"
    using js_rem_Fin [OF c0, of 60] by (simp add: ct zmod_int)
  have m: "t mod 3600 div 60 < 100" and s: "t mod 60 < 100"
    by (simp_all add: less_mult_imp_div_less) 
  have mm: "(t mod 3600) mod 60 = t mod 60"
    by (simp add: mod_mod_cancel)
  have lt: "js_lt (Fin 0) (Fin (int (t div 3600))) = (\<not> t < 3600)"
    by (auto simp: js_lt_zero_Fin div_greater_zero_iff)
  have mins: "padStart (js_String (Fin (int (t mod 3600 div 60)))) 2 (ascii ''0'')
                = two_digits (t mod 3600 div 60)"
    by (simp add: padStart_two_digits [OF m])
  have secs: "padStart (js_String (Fin (int (t mod 60)))) 2 (ascii ''0'') = two_digits (t mod 60)"
    by (simp add: padStart_two_digits [OF s])
  have hrs: "padStart (js_String (Fin (int (t div 3600)))) 2 (ascii ''0'')
               = (if t div 3600 < 10 then ascii ''0'' @ decimal (t div 3600)
                  else decimal (t div 3600))"
    by (simp add: padStart_hours)
  show ?thesis
    unfolding formatTimestamp_def Let_def clamped hours minutes seconds lt mins secs hrs
    by (simp add: spec_timestamp_def mm_ss_def hh_mm_ss_def mm t_def [symmetric])
qed


section \<open>The dialog store keeps one request\<close>

lemma pending_snoc: "pending (ps @ [Pending]) = pending ps @ [length ps]"
proof -
  have "filter (\<lambda>q. (ps @ [Pending]) ! q = Pending) [0..<length ps]
          = filter (\<lambda>q. ps ! q = Pending) [0..<length ps]"
    by (rule filter_cong) (auto simp: nth_append)
  then show ?thesis
    by (simp add: pending_def)
qed

lemma pending_resolve: "pending (resolve p v ps) = removeAll p (pending ps)"
proof (cases "p < length ps \<and> ps ! p = Pending")
  case True
  have "filter (\<lambda>q. ps[p := Fulfilled v] ! q = Pending) [0..<length ps]
          = filter (\<lambda>q. q \<noteq> p \<and> ps ! q = Pending) [0..<length ps]"
    using True by (intro filter_cong) (auto simp: nth_list_update split: if_splits)
  also have "\<dots> = removeAll p (filter (\<lambda>q. ps ! q = Pending) [0..<length ps])"
    by (simp add: removeAll_filter_not_eq conj_commute) (metis)
  finally show ?thesis
    using True by (simp add: resolve_def pending_def)
next
  case False
  then have "p \<notin> set (pending ps)"
    by (auto simp: pending_def)
  with False show ?thesis
    by (auto simp: resolve_def)
qed

lemma length_resolve: "length (resolve p v ps) = length ps"
  by (simp add: resolve_def)

lemma one_request_open: "one_request s \<Longrightarrow> one_request (snd (dialog_open request s))"
  by (auto simp: one_request_def dialog_open_def Let_def pending_snoc pending_resolve length_resolve
      split: option.splits)

lemma one_request_confirm: "one_request s \<Longrightarrow> one_request (confirm s)"
  by (auto simp: one_request_def confirm_def Let_def pending_resolve split: option.splits)

lemma one_request_cancel: "one_request s \<Longrightarrow> one_request (cancel s)"
  by (auto simp: one_request_def cancel_def pending_resolve split: option.splits)

lemma reachable_one_request: "reachable s \<Longrightarrow> one_request s"
proof (induction rule: reachable.induct)
  case created
  show ?case by (simp add: one_request_def createSplitAudioDialog_def pending_def)
next
  case (after_set_isOpen s v)
  then show ?case by (simp add: one_request_def set_isOpen_def)
next
  case (after_updateOptions s n)
  then show ?case by (simp add: one_request_def updateOptions_def)
next
  case (after_open s request)
  from after_open.IH show ?case by (rule one_request_open)
next
  case (after_confirm s)
  from after_confirm.IH show ?case by (rule one_request_confirm)
next
  case (after_cancel s)
  from after_cancel.IH show ?case by (rule one_request_cancel)
qed

lemma pending_stored:
  assumes "one_request s" and "resolvePromise s = Some q"
  shows "q < length (promises s) \<and> promises s ! q = Pending"
proof -
  have "q \<in> set (pending (promises s))"
    using assms by (simp add: one_request_def)
  then show ?thesis
    by (simp add: pending_def)
qed

lemma resolve_stored:
  assumes "one_request s" and "resolvePromise s = Some q"
  shows "resolve q v (promises s) ! q = Fulfilled v"
  using pending_stored [OF assms] by (simp add: resolve_def)

lemma pending_resolve_stored:
  assumes "one_request s" and "resolvePromise s = Some q"
  shows "pending (resolve q v (promises s)) = []"
  using assms by (simp add: pending_resolve one_request_def)

section \<open>The loop over the chunks\<close>

lemma snd_transcribeWithProvider:
  "snd (transcribeWithProvider sv c svc) = provider_calls svc [c]"
  by (cases svc) (simp_all add: provider_calls_def)

lemma provider_calls_Cons:
  "provider_calls svc [x] @ provider_calls svc xs = provider_calls svc (x # xs)"
  by (simp add: provider_calls_def)

lemma transcribeChunks_error:
  assumes "\<forall>c \<in> set (present pre). \<exists>t. fst (transcribeWithProvider sv c svc) = Inr t"
    and "fst (transcribeWithProvider sv bad svc) = Inl e"
  shows "transcribeChunks sv opts svc cs i (pre @ Some bad # post) merged
           = (Inl e, provider_calls svc (present pre @ [bad]))"
  using assms(1)
proof (induction pre arbitrary: i merged)
  case Nil
  obtain r ev where twp: "transcribeWithProvider sv bad svc = (r, ev)"
    by (cases "transcribeWithProvider sv bad svc")
  with assms(2) have r: "r = Inl e" by simp
  have ev: "ev = provider_calls svc [bad]"
    using snd_transcribeWithProvider [of sv bad svc] twp by simp
  show ?case
    by (simp add: twp r ev)
next
  case (Cons c pre)
  show ?case
  proof (cases c)
    case None
    with Cons show ?thesis by simp
  next
    case (Some b)
    with Cons.prems obtain t where t: "fst (transcribeWithProvider sv b svc) = Inr t"
      by auto
    obtain r ev where twp: "transcribeWithProvider sv b svc = (r, ev)"
      by (cases "transcribeWithProvider sv b svc")
    with t have r: "r = Inr t" by simp
    have ev: "ev = provider_calls svc [b]"
      using snd_transcribeWithProvider [of sv b svc] twp by simp
    have rest: "\<forall>c \<in> set (present pre). \<exists>t. fst (transcribeWithProvider sv c svc) = Inr t"
      using Cons.prems Some by simp
    show ?thesis
      using Cons.IH [OF rest]
      by (simp add: Some twp r ev Let_def provider_calls_Cons)
  qed
qed

lemma transcribeChunks_ok:
  assumes "\<forall>c \<in> set (present chunks). fst (transcribeWithProvider sv c svc) = Inr (txt c)"
  shows "transcribeChunks sv opts svc (calculateChunkSeconds opts) i chunks merged
           = (Inr (merged @ concat (map (\<lambda>(n, c).
                       (if addSplitTags opts then [spec_split_tag opts n] else [])
                         @ [trim (txt c)]) (numbered (Suc i) chunks))),
              provider_calls svc (present chunks))"
  using assms
proof (induction chunks arbitrary: i merged)
  case Nil
  show ?case by (simp add: provider_calls_def)
next
  case (Cons c chunks)
  show ?case
  proof (cases c)
    case None
    with Cons show ?thesis by simp
  next
    case (Some b)
    obtain r ev where twp: "transcribeWithProvider sv b svc = (r, ev)"
      by (cases "transcribeWithProvider sv b svc")
    have r: "r = Inr (txt b)"
      using Cons.prems Some twp by simp
    have ev: "ev = provider_calls svc [b]"
      using snd_transcribeWithProvider [of sv b svc] twp by simp
    have rest: "\<forall>c \<in> set (present chunks). fst (transcribeWithProvider sv c svc) = Inr (txt c)"
      using Cons.prems Some by simp
    show ?thesis
      using Cons.IH [OF rest]
      by (simp add: Some twp r ev Let_def spec_split_tag_def provider_calls_Cons)
  qed
qed

lemma floor_numeral_quotient_rat: "\<lfloor>numeral a / numeral b :: rat\<rfloor> = numeral a div numeral b"
  using floor_divide_of_int_eq [of "numeral a" "numeral b", where ?'a = rat] by simp

lemma calculateChunkSeconds_example: "calculateChunkSeconds example_options = Fin 1605"
  by (simp add: calculateChunkSeconds_def example_options_def MB_BYTES_def js_sub_def js_mul_def
      js_div_def js_max_def js_lt_def floor_numeral_quotient_rat)

lemma trim_hello: "trim (ascii '' hello '') = ascii ''hello''"
  by (simp add: trim_def ascii_def is_whitespace_def)

lemma spec_split_tag_example:
  "spec_split_tag example_options 1 =
     ascii ''[Chunk 1 '' @ [0x2022] @ ascii '' 00:00 '' @ [0x2013] @ ascii '' 26:45]''"
  "spec_split_tag example_options 2 =
     ascii ''[Chunk 2 '' @ [0x2022] @ ascii '' 26:45 '' @ [0x2013] @ ascii '' 53:30]''"
proof -
  have f: "nat \<lfloor>0::rat\<rfloor> = 0" "nat \<lfloor>1605::rat\<rfloor> = 1605" "nat \<lfloor>3210::rat\<rfloor> = 3210"
    by simp_all
  have v: "spec_timestamp 0 = ascii ''00:00''" "spec_timestamp 1605 = ascii ''26:45''"
      "spec_timestamp 3210 = ascii ''53:30''"
      "decimal (Suc 0) = ascii ''1''" "decimal 2 = ascii ''2''"
    by code_simp+
  show "spec_split_tag example_options 1 =
     ascii ''[Chunk 1 '' @ [0x2022] @ ascii '' 00:00 '' @ [0x2013] @ ascii '' 26:45]''"
    by (simp add: spec_split_tag_def calculateChunkSeconds_example js_mul_def signed_zero_def
        formatSplitTag_def formatTimestamp_Fin f v) (simp add: ascii_def)
  show "spec_split_tag example_options 2 =
     ascii ''[Chunk 2 '' @ [0x2022] @ ascii '' 26:45 '' @ [0x2013] @ ascii '' 53:30]''"
    by (simp add: spec_split_tag_def calculateChunkSeconds_example js_mul_def signed_zero_def
        formatSplitTag_def formatTimestamp_Fin f v) (simp add: ascii_def)
qed

section \<open>Events of a transcription\<close>







lemma threshold: "MAX_TRANSCRIPTION_FILE_MB * MB_BYTES = 25 * 1048576"
  by (simp add: MAX_TRANSCRIPTION_FILE_MB_def MB_BYTES_def)





section \<open>The database updates of a recording\<close>

lemma transcribeWithProvider_update:
  "transcribeWithProvider (sv\<lparr>db_recordings_update := u\<rparr>) c svc = transcribeWithProvider sv c svc"
  by (cases svc) simp_all

lemma transcribeChunks_update:
  "transcribeChunks (sv\<lparr>db_recordings_update := u\<rparr>) opts svc cs i chunks merged
     = transcribeChunks sv opts svc cs i chunks merged"
proof (induction chunks arbitrary: i merged)
  case Nil
  show ?case by simp
next
  case (Cons c chunks)
  then show ?case
    by (cases c) (simp_all add: transcribeWithProvider_update Let_def split: prod.splits sum.splits)
qed

lemma transcribeSplitAudio_update:
  "transcribeSplitAudio (sv\<lparr>db_recordings_update := u\<rparr>) b opts svc
     = transcribeSplitAudio sv b opts svc"
  by (simp add: transcribeSplitAudio_def Let_def split_def transcribeChunks_update
      split: sum.splits)

lemma compressAudio_update:
  "compressAudio (sv\<lparr>db_recordings_update := u\<rparr>) st b = compressAudio sv st b"
  by (simp add: compressAudio_def Let_def)

lemma transcribeBlob_update:
  "transcribeBlob (sv\<lparr>db_recordings_update := u\<rparr>) st b = transcribeBlob sv st b"
  by (simp add: transcribeBlob_def Let_def split_def compressAudio_update
      transcribeSplitAudio_update transcribeWithProvider_update split: option.splits)

lemma updateRecording_update_filter:
  "filter (\<lambda>x. \<not> is_NotifyWarning x) (updateRecording sv rc t d) = [DbUpdate rc]"
  by (simp add: updateRecording_def split: option.splits)

lemma updateRecording_calls: "DbUpdate rc \<in> set (updateRecording sv rc t d)"
  by (simp add: updateRecording_def)

section \<open>Claims\<close>






text \<open>
  C8. The store keeps at most one pending request. In every state that the store's methods
  lead to, the only promise that can be pending is the one whose resolver is stored.
  \<^verbatim>\<open>open\<close> settles a previously pending promise with \<^verbatim>\<open>null\<close> and stores the resolver of
  a new promise, which is then the only pending one. With a request pending, \<open>confirm\<close>
  settles its promise with the current options and \<open>cancel\<close> settles it with \<^verbatim>\<open>null\<close>;
  after either, no resolver is stored, no promise is pending and \<open>isOpen\<close> is false.
\<close>

theorem dialog_one_pending_request:
  assumes "reachable s"
  shows "pending (promises s) = (case resolvePromise s of None \<Rightarrow> [] | Some p \<Rightarrow> [p])
    \<and> (\<forall>q. resolvePromise s = Some q \<longrightarrow>
          promises (snd (dialog_open request s)) ! q = Fulfilled None
          \<and> q \<noteq> fst (dialog_open request s))
    \<and> resolvePromise (snd (dialog_open request s)) = Some (fst (dialog_open request s))
    \<and> pending (promises (snd (dialog_open request s))) = [fst (dialog_open request s)]
    \<and> (\<forall>q. resolvePromise s = Some q \<longrightarrow>
          resolvePromise (confirm s) = None \<and> \<not> isOpen (confirm s)
          \<and> promises (confirm s) ! q = Fulfilled (Some (options s))
          \<and> pending (promises (confirm s)) = []
          \<and> resolvePromise (cancel s) = None \<and> \<not> isOpen (cancel s)
          \<and> promises (cancel s) ! q = Fulfilled None
          \<and> pending (promises (cancel s)) = [])"
proof -
  have inv: "one_request s"
    using assms by (rule reachable_one_request)
  have a: "pending (promises s) = (case resolvePromise s of None \<Rightarrow> [] | Some p \<Rightarrow> [p])"
    using inv by (simp add: one_request_def)
  have b: "promises (snd (dialog_open request s)) ! q = Fulfilled None
           \<and> q \<noteq> fst (dialog_open request s)" if q: "resolvePromise s = Some q" for q
    using pending_stored [OF inv q] resolve_stored [OF inv q, of None]
    by (simp add: dialog_open_def Let_def q nth_append length_resolve)
  have c: "resolvePromise (snd (dialog_open request s)) = Some (fst (dialog_open request s))"
    by (simp add: dialog_open_def Let_def)
  have "one_request (snd (dialog_open request s))"
    using inv by (rule one_request_open)
  then have d: "pending (promises (snd (dialog_open request s))) = [fst (dialog_open request s)]"
    by (simp add: one_request_def c)
  have e: "resolvePromise (confirm s) = None \<and> \<not> isOpen (confirm s)
          \<and> promises (confirm s) ! q = Fulfilled (Some (options s))
          \<and> pending (promises (confirm s)) = []
          \<and> resolvePromise (cancel s) = None \<and> \<not> isOpen (cancel s)
          \<and> promises (cancel s) ! q = Fulfilled None
          \<and> pending (promises (cancel s)) = []" if q: "resolvePromise s = Some q" for q
    using resolve_stored [OF inv q] pending_resolve_stored [OF inv q]
    by (simp add: confirm_def cancel_def q)
  show ?thesis
    using a b c d e by blast
qed

theorem dialog_one_pending_request_witness:
  "reachable (snd (dialog_open
       \<lparr>request_blob = \<lparr>blob_size = 40000000, blob_data = 0\<rparr>, request_blobSizeMb = Fin 38,
        request_options = options createSplitAudioDialog\<rparr> createSplitAudioDialog))
   \<and> resolvePromise (snd (dialog_open
       \<lparr>request_blob = \<lparr>blob_size = 40000000, blob_data = 0\<rparr>, request_blobSizeMb = Fin 38,
        request_options = options createSplitAudioDialog\<rparr> createSplitAudioDialog)) = Some 0
   \<and> promises (snd (dialog_open
      \<lparr>request_blob = \<lparr>blob_size = 30000000, blob_data = 1\<rparr>, request_blobSizeMb = Fin 28,
       request_options = options createSplitAudioDialog\<rparr>
      (snd (dialog_open
         \<lparr>request_blob = \<lparr>blob_size = 40000000, blob_data = 0\<rparr>, request_blobSizeMb = Fin 38,
          request_options = options createSplitAudioDialog\<rparr> createSplitAudioDialog)))) ! 0
     = Fulfilled None
   \<and> promises (confirm (snd (dialog_open
         \<lparr>request_blob = \<lparr>blob_size = 40000000, blob_data = 0\<rparr>, request_blobSizeMb = Fin 38,
          request_options = options createSplitAudioDialog\<rparr> createSplitAudioDialog))) ! 0
     = Fulfilled (Some (options createSplitAudioDialog))
   \<and> promises (cancel (snd (dialog_open
         \<lparr>request_blob = \<lparr>blob_size = 40000000, blob_data = 0\<rparr>, request_blobSizeMb = Fin 38,
          request_options = options createSplitAudioDialog\<rparr> createSplitAudioDialog))) ! 0
     = Fulfilled None"
proof -
  define r0 where "r0 = \<lparr>request_blob = \<lparr>blob_size = 40000000, blob_data = 0\<rparr>,
    request_blobSizeMb = Fin 38, request_options = options createSplitAudioDialog\<rparr>"
  define r1 where "r1 = \<lparr>request_blob = \<lparr>blob_size = 30000000, blob_data = 1\<rparr>,
    request_blobSizeMb = Fin 28, request_options = options createSplitAudioDialog\<rparr>"
  define s where "s = snd (dialog_open r0 createSplitAudioDialog)"
  have reach: "reachable s"
    unfolding s_def by (intro reachable.after_open reachable.created)
  have st: "resolvePromise s = Some 0" "options s = options createSplitAudioDialog"
    by (simp_all add: s_def r0_def dialog_open_def Let_def createSplitAudioDialog_def)
  have "promises (snd (dialog_open r1 s)) ! 0 = Fulfilled None"
    "promises (confirm s) ! 0 = Fulfilled (Some (options createSplitAudioDialog))"
    "promises (cancel s) ! 0 = Fulfilled None"
    using dialog_one_pending_request [OF reach, of r1] by (simp_all add: st)
  then show ?thesis
    using reach st by (simp add: s_def r0_def r1_def)
qed

text \<open>
  C9. With no request pending (no resolver stored), \<open>confirm\<close> and \<open>cancel\<close> leave the
  store as it is: \<open>isOpen\<close>, \<open>blob\<close>, \<open>blobSizeMb\<close>, \<open>options\<close> and the resolver are
  unchanged, and no promise is settled.
\<close>

theorem dialog_no_request_noop:
  "resolvePromise s = None \<Longrightarrow> confirm s = s \<and> cancel s = s"
  by (simp add: confirm_def cancel_def)

theorem dialog_no_request_noop_witness:
  "resolvePromise createSplitAudioDialog = None
   \<and> confirm createSplitAudioDialog = createSplitAudioDialog
   \<and> cancel createSplitAudioDialog = createSplitAudioDialog"
proof -
  have n: "resolvePromise createSplitAudioDialog = None"
    by (simp add: createSplitAudioDialog_def)
  show ?thesis
    using n dialog_no_request_noop [OF n] by simp
qed

text \<open>
  C4. When the split succeeds and every present chunk is transcribed, say chunk \<open>c\<close> with
  the text \<open>txt c\<close>, the merged transcript is the segments joined by two line feeds. With
  \<open>addSplitTags\<close> the segments are, for each chunk in turn, the split tag of its position
  \<open>n\<close> (from \<open>(n - 1) * chunkSeconds\<close> to \<open>n * chunkSeconds\<close>) and then its trimmed text;
  without it they are the trimmed texts alone, so that the merge adds no tag.
\<close>

theorem transcribeSplitAudio_merges:
  assumes "ffmpeg_splitAudioBlob sv b (maxMb opts, bitrateKbps opts, minChunkSec opts, safetyMb opts)
             = Inr chunks"
    and "\<forall>c \<in> set (present chunks). fst (transcribeWithProvider sv c svc) = Inr (txt c)"
  shows "(addSplitTags opts \<longrightarrow>
            fst (transcribeSplitAudio sv b opts svc) =
              Inr (js_join (ascii [CHR 0x0A, CHR 0x0A])
                     (concat (map (\<lambda>(n, c). [spec_split_tag opts n, trim (txt c)])
                                (numbered 1 chunks)))))
       \<and> (\<not> addSplitTags opts \<longrightarrow>
            fst (transcribeSplitAudio sv b opts svc) =
              Inr (js_join (ascii [CHR 0x0A, CHR 0x0A]) (map (\<lambda>c. trim (txt c)) (present chunks))))"
proof -
  have loop: "transcribeChunks sv opts svc (calculateChunkSeconds opts) 0 chunks []
           = (Inr ([] @ concat (map (\<lambda>(n, c).
                       (if addSplitTags opts then [spec_split_tag opts n] else [])
                         @ [trim (txt c)]) (numbered (Suc 0) chunks))),
              provider_calls svc (present chunks))"
    using assms(2) by (rule transcribeChunks_ok)
  have off: "concat (map (\<lambda>(n, c). [trim (txt c)]) (numbered k chunks))
               = map (\<lambda>c. trim (txt c)) (present chunks)" for k
    by (induction k chunks rule: numbered.induct) simp_all
  show ?thesis
    using assms(1) loop by (auto simp: transcribeSplitAudio_def off)
qed

theorem transcribeSplitAudio_merges_witness:
  "fst (transcribeSplitAudio example_services example_blob example_options OpenAI) =
     Inr (ascii ''[Chunk 1 '' @ [0x2022] @ ascii '' 00:00 '' @ [0x2013] @ ascii '' 26:45]''
          @ ascii [CHR 0x0A, CHR 0x0A] @ ascii ''hello'' @ ascii [CHR 0x0A, CHR 0x0A]
          @ ascii ''[Chunk 2 '' @ [0x2022] @ ascii '' 26:45 '' @ [0x2013] @ ascii '' 53:30]''
          @ ascii [CHR 0x0A, CHR 0x0A] @ ascii ''hello'')
   \<and> fst (transcribeSplitAudio example_services example_blob
           (example_options\<lparr>addSplitTags := False\<rparr>) OpenAI) =
     Inr (ascii ''hello'' @ ascii [CHR 0x0A, CHR 0x0A] @ ascii ''hello'')"
proof -
  have split: "ffmpeg_splitAudioBlob example_services example_blob p =
      Inr [Some \<lparr>blob_size = 25690112, blob_data = 2\<rparr>, Some \<lparr>blob_size = 5767168, blob_data = 3\<rparr>]"
    for p
    by (simp add: example_services_def)
  have ok: "\<forall>c \<in> set (present
      [Some \<lparr>blob_size = 25690112, blob_data = 2\<rparr>, Some \<lparr>blob_size = 5767168, blob_data = 3\<rparr>]).
      fst (transcribeWithProvider example_services c OpenAI) = Inr ((\<lambda>c. ascii '' hello '') c)"
    by (simp add: example_services_def)
  have on: "addSplitTags example_options" and off: "\<not> addSplitTags (example_options\<lparr>addSplitTags := False\<rparr>)"
    by (simp_all add: example_options_def)
  have a: "fst (transcribeSplitAudio example_services example_blob example_options OpenAI) =
     Inr (ascii ''[Chunk 1 '' @ [0x2022] @ ascii '' 00:00 '' @ [0x2013] @ ascii '' 26:45]''
          @ ascii [CHR 0x0A, CHR 0x0A] @ ascii ''hello'' @ ascii [CHR 0x0A, CHR 0x0A]
          @ ascii ''[Chunk 2 '' @ [0x2022] @ ascii '' 26:45 '' @ [0x2013] @ ascii '' 53:30]''
          @ ascii [CHR 0x0A, CHR 0x0A] @ ascii ''hello'')"
    using transcribeSplitAudio_merges [OF split ok, of example_options, THEN conjunct1] on
      spec_split_tag_example
    by (simp add: trim_hello numeral_2_eq_2)
  have b: "fst (transcribeSplitAudio example_services example_blob
           (example_options\<lparr>addSplitTags := False\<rparr>) OpenAI) =
     Inr (ascii ''hello'' @ ascii [CHR 0x0A, CHR 0x0A] @ ascii ''hello'')"
    using transcribeSplitAudio_merges [OF split ok, of "example_options\<lparr>addSplitTags := False\<rparr>",
        THEN conjunct2] off
    by (simp add: trim_hello)
  show ?thesis
    using a b by simp
qed

text \<open>
  C7. In the split path an error aborts. If the split service fails,
  \<open>transcribeSplitAudio\<close> returns the error titled \<open>Audio split failed\<close> and calls no
  provider. If the transcription of a chunk fails after the chunks before it succeeded,
  the result is that chunk's error, and the provider was called for the chunks up to the
  failing one and for no later chunk. In both cases the result is an error, not a merged
  transcript.
\<close>

theorem transcribeSplitAudio_aborts:
  "(ffmpeg_splitAudioBlob sv b (maxMb opts, bitrateKbps opts, minChunkSec opts, safetyMb opts)
      = Inl splitError \<longrightarrow>
    transcribeSplitAudio sv b opts svc =
      (Inl \<lparr>title = ascii ''Audio split failed'', description = None,
            serviceError = Some splitError\<rparr>,
       [SplitAudioBlob b (maxMb opts, bitrateKbps opts, minChunkSec opts, safetyMb opts)]))
   \<and> (ffmpeg_splitAudioBlob sv b (maxMb opts, bitrateKbps opts, minChunkSec opts, safetyMb opts)
        = Inr (pre @ Some bad # post)
      \<and> (\<forall>c \<in> set (present pre). \<exists>t. fst (transcribeWithProvider sv c svc) = Inr t)
      \<and> fst (transcribeWithProvider sv bad svc) = Inl chunkError \<longrightarrow>
    transcribeSplitAudio sv b opts svc =
      (Inl chunkError,
       SplitAudioBlob b (maxMb opts, bitrateKbps opts, minChunkSec opts, safetyMb opts)
         # provider_calls svc (present pre @ [bad])))"
proof (intro conjI impI)
  assume "ffmpeg_splitAudioBlob sv b (maxMb opts, bitrateKbps opts, minChunkSec opts, safetyMb opts)
      = Inl splitError"
  then show "transcribeSplitAudio sv b opts svc =
      (Inl \<lparr>title = ascii ''Audio split failed'', description = None,
            serviceError = Some splitError\<rparr>,
       [SplitAudioBlob b (maxMb opts, bitrateKbps opts, minChunkSec opts, safetyMb opts)])"
    by (simp add: transcribeSplitAudio_def)
next
  assume h: "ffmpeg_splitAudioBlob sv b (maxMb opts, bitrateKbps opts, minChunkSec opts, safetyMb opts)
        = Inr (pre @ Some bad # post)
      \<and> (\<forall>c \<in> set (present pre). \<exists>t. fst (transcribeWithProvider sv c svc) = Inr t)
      \<and> fst (transcribeWithProvider sv bad svc) = Inl chunkError"
  then have "transcribeChunks sv opts svc (calculateChunkSeconds opts) 0 (pre @ Some bad # post) []
               = (Inl chunkError, provider_calls svc (present pre @ [bad]))"
    by (intro transcribeChunks_error) simp_all
  with h show "transcribeSplitAudio sv b opts svc =
      (Inl chunkError,
       SplitAudioBlob b (maxMb opts, bitrateKbps opts, minChunkSec opts, safetyMb opts)
         # provider_calls svc (present pre @ [bad]))"
    by (simp add: transcribeSplitAudio_def)
qed

theorem transcribeSplitAudio_aborts_witness:
  "transcribeSplitAudio
     (example_services\<lparr>ffmpeg_splitAudioBlob := (\<lambda>b p. Inl (ServiceError (ascii ''ffmpeg exited'')))\<rparr>)
     example_blob example_options OpenAI =
     (Inl \<lparr>title = ascii ''Audio split failed'', description = None,
           serviceError = Some (ServiceError (ascii ''ffmpeg exited''))\<rparr>,
      [SplitAudioBlob example_blob (Fin 25, Fin 128, Fin 10, Fin (1 / 2))])
   \<and> transcribeSplitAudio
     (example_services\<lparr>transcriptions_openai :=
        (\<lambda>b. if blob_data b = 3 then Inl example_error else Inr (ascii '' hello ''))\<rparr>)
     example_blob example_options OpenAI =
     (Inl example_error,
      [SplitAudioBlob example_blob (Fin 25, Fin 128, Fin 10, Fin (1 / 2)),
       Transcribe OpenAI \<lparr>blob_size = 25690112, blob_data = 2\<rparr>,
       Transcribe OpenAI \<lparr>blob_size = 5767168, blob_data = 3\<rparr>])"
proof -
  have a: "transcribeSplitAudio
     (example_services\<lparr>ffmpeg_splitAudioBlob := (\<lambda>b p. Inl (ServiceError (ascii ''ffmpeg exited'')))\<rparr>)
     example_blob example_options OpenAI =
     (Inl \<lparr>title = ascii ''Audio split failed'', description = None,
           serviceError = Some (ServiceError (ascii ''ffmpeg exited''))\<rparr>,
      [SplitAudioBlob example_blob (Fin 25, Fin 128, Fin 10, Fin (1 / 2))])"
    using transcribeSplitAudio_aborts
      [of "example_services\<lparr>ffmpeg_splitAudioBlob := (\<lambda>b p. Inl (ServiceError (ascii ''ffmpeg exited'')))\<rparr>"
          example_blob example_options "ServiceError (ascii ''ffmpeg exited'')" OpenAI,
       THEN conjunct1]
    by (simp add: example_options_def)
  have b: "transcribeSplitAudio
     (example_services\<lparr>transcriptions_openai :=
        (\<lambda>b. if blob_data b = 3 then Inl example_error else Inr (ascii '' hello ''))\<rparr>)
     example_blob example_options OpenAI =
     (Inl example_error,
      [SplitAudioBlob example_blob (Fin 25, Fin 128, Fin 10, Fin (1 / 2)),
       Transcribe OpenAI \<lparr>blob_size = 25690112, blob_data = 2\<rparr>,
       Transcribe OpenAI \<lparr>blob_size = 5767168, blob_data = 3\<rparr>])"
    using transcribeSplitAudio_aborts
      [of "example_services\<lparr>transcriptions_openai :=
             (\<lambda>b. if blob_data b = 3 then Inl example_error else Inr (ascii '' hello ''))\<rparr>"
          example_blob example_options _ OpenAI
          "[Some \<lparr>blob_size = 25690112, blob_data = 2\<rparr>]"
          "\<lparr>blob_size = 5767168, blob_data = 3\<rparr>" "[]" example_error,
       THEN conjunct2]
    by (simp add: example_options_def example_services_def provider_calls_def)
  show ?thesis
    using a b by simp
qed

text \<open>
  C2, at an input where the code departs from it. Compression is enabled and succeeds: the
  recording of 30 MiB compresses to 1 MiB, which is below the limit of 25 MiB. The run
  still opens the dialog, for the size of the fetched blob, and hands the fetched blob to
  the splitting step; the compressed blob is used nowhere.
\<close>

theorem transcribeBlob_splits_uncompressed:
  "fst (compressAudio example_services example_settings example_blob)
     = \<lparr>blob_size = 1048576, blob_data = 1\<rparr>
   \<and> snd (transcribeBlob example_services example_settings example_blob) =
       [LogEvent (transcription_requested OpenAI),
        CompressAudioBlob example_blob (ascii ''-c:a libopus -b:a 32k''),
        NotifyInfo (ascii ''Audio compressed'') (ascii ''Reduced file size by 97%''),
        LogEvent (compression_completed OpenAI 31457280 1048576 (Fin 97)),
        SplitAudioDialogOpen
          \<lparr>request_blob = example_blob, request_blobSizeMb = Fin 30,
           request_options = example_options\<rparr>,
        SplitAudioBlob example_blob (Fin 25, Fin 128, Fin 10, Fin (1 / 2)),
        Transcribe OpenAI \<lparr>blob_size = 25690112, blob_data = 2\<rparr>,
        Transcribe OpenAI \<lparr>blob_size = 5767168, blob_data = 3\<rparr>,
        LogEvent (transcription_completed OpenAI)]"
proof -
  have d: "decimal 97 = ascii ''97''"
    by code_simp
  have c: "compressAudio example_services example_settings example_blob =
      (\<lparr>blob_size = 1048576, blob_data = 1\<rparr>,
       [CompressAudioBlob example_blob (ascii ''-c:a libopus -b:a 32k''),
        NotifyInfo (ascii ''Audio compressed'') (ascii ''Reduced file size by 97%''),
        LogEvent (compression_completed OpenAI 31457280 1048576 (Fin 97))])"
    by (simp add: compressAudio_def example_services_def example_settings_def example_blob_def
        Let_def js_div_def js_sub_def js_mul_def floor_numeral_quotient_rat d)
       (simp add: ascii_def)
  have s: "snd (transcribeSplitAudio example_services example_blob example_options OpenAI) =
      [SplitAudioBlob example_blob (Fin 25, Fin 128, Fin 10, Fin (1 / 2)),
       Transcribe OpenAI \<lparr>blob_size = 25690112, blob_data = 2\<rparr>,
       Transcribe OpenAI \<lparr>blob_size = 5767168, blob_data = 3\<rparr>]"
    by (simp add: transcribeSplitAudio_def Let_def split_def example_services_def
        example_options_def)
  have f: "\<exists>t. fst (transcribeSplitAudio example_services example_blob example_options OpenAI) = Inr t"
    by (simp add: transcribeSplitAudio_def Let_def split_def example_services_def
        example_options_def)
  have r: "splitAudioDialogRequest example_settings example_blob =
      \<lparr>request_blob = example_blob, request_blobSizeMb = Fin 30, request_options = example_options\<rparr>"
    by (simp add: splitAudioDialogRequest_def example_settings_def example_blob_def
        example_options_def MB_BYTES_def js_div_def)
  have o: "splitAudioDialog_open example_services x = Some (request_options x)" for x
    by (simp add: example_services_def)
  have g: "25 * 1048576 < blob_size example_blob"
    by (simp add: example_blob_def)
  have sel: "selectedTranscriptionService example_settings = OpenAI"
    by (simp add: example_settings_def)
  from f obtain t where t: "fst (transcribeSplitAudio example_services example_blob example_options OpenAI) = Inr t"
    by blast
  show ?thesis
    using g by (simp add: transcribeBlob_def Let_def split_def threshold c r o s t sel)
qed




text \<open>
  C6. If compression is enabled and the compression step fails, \<open>transcribeBlob\<close> goes on
  with the original blob: its result is the result of the run with compression disabled,
  so the compression error is no part of it, and its events are those of that run with
  three more after the first: the call of the compression, a warning notification and the
  analytics event \<open>compression_failed\<close>.
\<close>

theorem compression_failure_continues:
  assumes "compressionEnabled st"
    and "ffmpeg_compressAudioBlob sv b (compressionOptions st) = Inl e"
  shows "fst (compressAudio sv st b) = b
    \<and> fst (transcribeBlob sv st b) = fst (transcribeBlob sv (st\<lparr>compressionEnabled := False\<rparr>) b)
    \<and> snd (transcribeBlob sv st b) =
        LogEvent (transcription_requested (selectedTranscriptionService st))
        # CompressAudioBlob b (compressionOptions st)
        # NotifyWarning (ascii ''Audio compression failed'')
            (message e @ ascii ''. Using original audio for transcription.'') None
        # LogEvent (compression_failed (selectedTranscriptionService st) (message e))
        # tl (snd (transcribeBlob sv (st\<lparr>compressionEnabled := False\<rparr>) b))"
proof -
  have on: "compressAudio sv st b =
      (b, [CompressAudioBlob b (compressionOptions st),
           NotifyWarning (ascii ''Audio compression failed'')
             (message e @ ascii ''. Using original audio for transcription.'') None,
           LogEvent (compression_failed (selectedTranscriptionService st) (message e))])"
    using assms by (simp add: compressAudio_def)
  have off: "compressAudio sv (st\<lparr>compressionEnabled := False\<rparr>) b = (b, [])"
    by (simp add: compressAudio_def)
  have req: "splitAudioDialogRequest (st\<lparr>compressionEnabled := False\<rparr>) b
               = splitAudioDialogRequest st b"
    by (simp add: splitAudioDialogRequest_def)
  show ?thesis
    by (simp add: transcribeBlob_def on off req Let_def split_def)
qed

theorem compression_failure_continues_witness:
  "transcribeBlob
     (example_services\<lparr>ffmpeg_compressAudioBlob := (\<lambda>b c. Inl (ServiceError (ascii ''ffmpeg exited'')))\<rparr>)
     example_settings example_small_blob =
     (Inr (ascii '' hello ''),
      [LogEvent (transcription_requested OpenAI),
       CompressAudioBlob example_small_blob (ascii ''-c:a libopus -b:a 32k''),
       NotifyWarning (ascii ''Audio compression failed'')
         (ascii ''ffmpeg exited. Using original audio for transcription.'') None,
       LogEvent (compression_failed OpenAI (ascii ''ffmpeg exited'')),
       Transcribe OpenAI example_small_blob,
       LogEvent (transcription_completed OpenAI)])"
proof -
  define sv where "sv = example_services\<lparr>ffmpeg_compressAudioBlob :=
    (\<lambda>b c. Inl (ServiceError (ascii ''ffmpeg exited'')))\<rparr>"
  have en: "compressionEnabled example_settings"
    by (simp add: example_settings_def)
  have fail: "ffmpeg_compressAudioBlob sv example_small_blob (compressionOptions example_settings)
                = Inl (ServiceError (ascii ''ffmpeg exited''))"
    by (simp add: sv_def)
  have sel: "selectedTranscriptionService example_settings = OpenAI"
    and co: "compressionOptions example_settings = ascii ''-c:a libopus -b:a 32k''"
    by (simp_all add: example_settings_def)
  have msg: "ascii ''ffmpeg exited'' @ ascii ''. Using original audio for transcription.''
               = ascii ''ffmpeg exited. Using original audio for transcription.''"
    by (simp add: ascii_def)
  have off: "transcribeBlob sv (example_settings\<lparr>compressionEnabled := False\<rparr>) example_small_blob
      = (Inr (ascii '' hello ''),
         [LogEvent (transcription_requested OpenAI), Transcribe OpenAI example_small_blob,
          LogEvent (transcription_completed OpenAI)])"
    by (simp add: transcribeBlob_def compressAudio_def Let_def sv_def example_services_def
        example_settings_def example_small_blob_def MAX_TRANSCRIPTION_FILE_MB_def MB_BYTES_def)
  have "fst (transcribeBlob sv example_settings example_small_blob) = Inr (ascii '' hello '')"
    "snd (transcribeBlob sv example_settings example_small_blob) =
      [LogEvent (transcription_requested OpenAI),
       CompressAudioBlob example_small_blob (ascii ''-c:a libopus -b:a 32k''),
       NotifyWarning (ascii ''Audio compression failed'')
         (ascii ''ffmpeg exited. Using original audio for transcription.'') None,
       LogEvent (compression_failed OpenAI (ascii ''ffmpeg exited'')),
       Transcribe OpenAI example_small_blob,
       LogEvent (transcription_completed OpenAI)]"
    using compression_failure_continues [OF en fail]
    by (simp_all add: off sel co msg)
  then show ?thesis
    unfolding sv_def by (simp add: prod_eq_iff)
qed

text \<open>
  C10. For a recording whose audio is fetched: when the transcription fails,
  \<open>transcribeRecording\<close> returns its error and updates the recording with the status
  \<open>FAILED\<close>; when it succeeds with a text, it returns the text and updates the recording with
  that text and the status \<open>DONE\<close>. What the database updates answer changes neither the
  result nor any event other than warning notifications.
\<close>

theorem transcribeRecording_status:
  assumes "db_recordings_getAudioBlob sv (recording_id r) = Inr audio"
  shows "(\<forall>e. fst (transcribeBlob sv st audio) = Inl e \<longrightarrow>
            fst (transcribeRecording sv st r) = Inl e
            \<and> DbUpdate (r\<lparr>transcriptionStatus := FAILED\<rparr>)
                \<in> set (snd (transcribeRecording sv st r)))
    \<and> (\<forall>t. fst (transcribeBlob sv st audio) = Inr t \<longrightarrow>
            fst (transcribeRecording sv st r) = Inr t
            \<and> DbUpdate (r\<lparr>transcribedText := t, transcriptionStatus := DONE\<rparr>)
                \<in> set (snd (transcribeRecording sv st r)))
    \<and> fst (transcribeRecording (sv\<lparr>db_recordings_update := u\<rparr>) st r)
        = fst (transcribeRecording sv st r)
    \<and> filter (\<lambda>x. \<not> is_NotifyWarning x)
          (snd (transcribeRecording (sv\<lparr>db_recordings_update := u\<rparr>) st r))
        = filter (\<lambda>x. \<not> is_NotifyWarning x) (snd (transcribeRecording sv st r))"
proof (intro conjI allI impI)
  fix e
  assume "fst (transcribeBlob sv st audio) = Inl e"
  with assms show "fst (transcribeRecording sv st r) = Inl e"
    and "DbUpdate (r\<lparr>transcriptionStatus := FAILED\<rparr>) \<in> set (snd (transcribeRecording sv st r))"
    by (simp_all add: transcribeRecording_def Let_def split_def updateRecording_calls)
next
  fix t
  assume "fst (transcribeBlob sv st audio) = Inr t"
  with assms show "fst (transcribeRecording sv st r) = Inr t"
    and "DbUpdate (r\<lparr>transcribedText := t, transcriptionStatus := DONE\<rparr>)
           \<in> set (snd (transcribeRecording sv st r))"
    by (simp_all add: transcribeRecording_def Let_def split_def updateRecording_calls)
next
  show "fst (transcribeRecording (sv\<lparr>db_recordings_update := u\<rparr>) st r)
        = fst (transcribeRecording sv st r)"
    by (simp add: transcribeRecording_def Let_def split_def transcribeBlob_update
        split: sum.splits)
  show "filter (\<lambda>x. \<not> is_NotifyWarning x)
          (snd (transcribeRecording (sv\<lparr>db_recordings_update := u\<rparr>) st r))
        = filter (\<lambda>x. \<not> is_NotifyWarning x) (snd (transcribeRecording sv st r))"
    by (simp add: transcribeRecording_def Let_def split_def transcribeBlob_update
        updateRecording_update_filter split: sum.splits)
qed

theorem transcribeRecording_status_witness:
  "fst (transcribeRecording
          (example_services\<lparr>db_recordings_getAudioBlob := (\<lambda>i. Inr example_small_blob),
             db_recordings_update := (\<lambda>r. Some (ServiceError (ascii ''database is locked'')))\<rparr>)
          (example_settings\<lparr>compressionEnabled := False\<rparr>) example_recording)
     = Inr (ascii '' hello '')
   \<and> DbUpdate (example_recording\<lparr>transcribedText := ascii '' hello '',
                                  transcriptionStatus := DONE\<rparr>)
       \<in> set (snd (transcribeRecording
          (example_services\<lparr>db_recordings_getAudioBlob := (\<lambda>i. Inr example_small_blob),
             db_recordings_update := (\<lambda>r. Some (ServiceError (ascii ''database is locked'')))\<rparr>)
          (example_settings\<lparr>compressionEnabled := False\<rparr>) example_recording))
   \<and> fst (transcribeRecording
          (example_services\<lparr>db_recordings_getAudioBlob := (\<lambda>i. Inr example_small_blob),
             db_recordings_update := (\<lambda>r. Some (ServiceError (ascii ''database is locked''))),
             transcriptions_openai := (\<lambda>b. Inl example_error)\<rparr>)
          (example_settings\<lparr>compressionEnabled := False\<rparr>) example_recording)
     = Inl example_error
   \<and> DbUpdate (example_recording\<lparr>transcriptionStatus := FAILED\<rparr>)
       \<in> set (snd (transcribeRecording
          (example_services\<lparr>db_recordings_getAudioBlob := (\<lambda>i. Inr example_small_blob),
             db_recordings_update := (\<lambda>r. Some (ServiceError (ascii ''database is locked''))),
             transcriptions_openai := (\<lambda>b. Inl example_error)\<rparr>)
          (example_settings\<lparr>compressionEnabled := False\<rparr>) example_recording))"
proof -
  define sv1 where "sv1 = example_services\<lparr>db_recordings_getAudioBlob := (\<lambda>i. Inr example_small_blob),
     db_recordings_update := (\<lambda>r. Some (ServiceError (ascii ''database is locked'')))\<rparr>"
  define sv2 where "sv2 = example_services\<lparr>db_recordings_getAudioBlob := (\<lambda>i. Inr example_small_blob),
     db_recordings_update := (\<lambda>r. Some (ServiceError (ascii ''database is locked''))),
     transcriptions_openai := (\<lambda>b. Inl example_error)\<rparr>"
  define st where "st = example_settings\<lparr>compressionEnabled := False\<rparr>"
  have f1: "db_recordings_getAudioBlob sv1 (recording_id example_recording) = Inr example_small_blob"
    and f2: "db_recordings_getAudioBlob sv2 (recording_id example_recording) = Inr example_small_blob"
    by (simp_all add: sv1_def sv2_def)
  have t1: "fst (transcribeBlob sv1 st example_small_blob) = Inr (ascii '' hello '')"
    by (simp add: transcribeBlob_def compressAudio_def Let_def sv1_def st_def
        example_services_def example_settings_def example_small_blob_def
        MAX_TRANSCRIPTION_FILE_MB_def MB_BYTES_def)
  have t2: "fst (transcribeBlob sv2 st example_small_blob) = Inl example_error"
    by (simp add: transcribeBlob_def compressAudio_def Let_def sv2_def st_def
        example_services_def example_settings_def example_small_blob_def
        MAX_TRANSCRIPTION_FILE_MB_def MB_BYTES_def)
  have a: "fst (transcribeRecording sv1 st example_recording) = Inr (ascii '' hello '')
      \<and> DbUpdate (example_recording\<lparr>transcribedText := ascii '' hello '',
                                     transcriptionStatus := DONE\<rparr>)
          \<in> set (snd (transcribeRecording sv1 st example_recording))"
    using transcribeRecording_status [OF f1, of st, THEN conjunct2, THEN conjunct1, rule_format,
        OF t1] .
  have b: "fst (transcribeRecording sv2 st example_recording) = Inl example_error
      \<and> DbUpdate (example_recording\<lparr>transcriptionStatus := FAILED\<rparr>)
          \<in> set (snd (transcribeRecording sv2 st example_recording))"
    using transcribeRecording_status [OF f2, of st, THEN conjunct1, rule_format, OF t2] .
  show ?thesis
    using a b unfolding sv1_def sv2_def st_def by simp
qed

end
